theory Spec2Isabelle
  imports Complex_Main "HOL-Library.AList"
begin

section \<open>The fragment shader\<close>

text \<open>
  The shader of \<^verbatim>\<open>init\<close> (script.js, lines 177 to 212) works on GLSL \<^verbatim>\<open>vec2\<close> and
  \<^verbatim>\<open>float\<close> values. Floats are modelled as real numbers, so rounding is not part of the
  model. The operators on \<^verbatim>\<open>vec2\<close> act on each component.
\<close>

datatype vec2 = Vec2 (vx: real) (vy: real)

definition vadd :: "vec2 \<Rightarrow> vec2 \<Rightarrow> vec2" where
  "vadd a b = Vec2 (vx a + vx b) (vy a + vy b)"

definition vsub :: "vec2 \<Rightarrow> vec2 \<Rightarrow> vec2" where
  "vsub a b = Vec2 (vx a - vx b) (vy a - vy b)"

definition vmul :: "vec2 \<Rightarrow> vec2 \<Rightarrow> vec2" where
  "vmul a b = Vec2 (vx a * vx b) (vy a * vy b)"

definition vdiv :: "vec2 \<Rightarrow> vec2 \<Rightarrow> vec2" where
  "vdiv a b = Vec2 (vx a / vx b) (vy a / vy b)"

definition vneg :: "vec2 \<Rightarrow> vec2" where
  "vneg a = Vec2 (- vx a) (- vy a)"

definition fmulv :: "real \<Rightarrow> vec2 \<Rightarrow> vec2" where
  "fmulv k a = Vec2 (k * vx a) (k * vy a)"

definition vmulf :: "vec2 \<Rightarrow> real \<Rightarrow> vec2" where
  "vmulf a k = Vec2 (vx a * k) (vy a * k)"

definition vfloor :: "vec2 \<Rightarrow> vec2" where
  "vfloor a = Vec2 (of_int \<lfloor>vx a\<rfloor>) (of_int \<lfloor>vy a\<rfloor>)"

definition vlength :: "vec2 \<Rightarrow> real" where
  "vlength a = sqrt (vx a * vx a + vy a * vy a)"

text \<open>
  The built-ins \<^verbatim>\<open>clamp\<close> and \<^verbatim>\<open>smoothstep\<close> of GLSL, by their reference formulas:
  \<^verbatim>\<open>clamp(x, a, b) = min(max(x, a), b)\<close> and
  \<^verbatim>\<open>t = clamp((x - edge0) / (edge1 - edge0), 0.0, 1.0); return t * t * (3.0 - 2.0 * t);\<close>.
  The shader calls \<^verbatim>\<open>smoothstep\<close> with \<^verbatim>\<open>edge0 = 0.3\<close> above \<^verbatim>\<open>edge1 = 0.0\<close>; the
  formula is taken as it stands there.
\<close>

definition clamp :: "real \<Rightarrow> real \<Rightarrow> real \<Rightarrow> real" where
  "clamp x minVal maxVal = min (max x minVal) maxVal"

definition smoothstep :: "real \<Rightarrow> real \<Rightarrow> real \<Rightarrow> real" where
  "smoothstep edge0 edge1 x =
     (let t = clamp ((x - edge0) / (edge1 - edge0)) 0 1
      in t * t * (3 - 2 * t))"

text \<open>A sampler is the function from texture coordinates to the colour read there.\<close>

definition texture2D :: "(vec2 \<Rightarrow> 'c) \<Rightarrow> vec2 \<Rightarrow> 'c" where
  "texture2D sampler coord = sampler coord"

text \<open>
  \<^verbatim>\<open>main\<close> of the fragment shader, one binding for each of its statements; the result is
  the value assigned to \<^verbatim>\<open>gl_FragColor\<close>.
\<close>

definition uvOffset :: "vec2 \<Rightarrow> vec2 \<Rightarrow> vec2 \<Rightarrow> vec2" where
  "uvOffset u_mouse u_prevMouse vUv =
     (let gridUV = vdiv (vfloor (vmul vUv (Vec2 40 40))) (Vec2 40 40);
          centerOfPixel = vadd gridUV (Vec2 (1 / 40) (1 / 40));
          mouseDirection = vsub u_mouse u_prevMouse;
          pixelToMouseDirection = vsub centerOfPixel u_mouse;
          pixelDistanceToMouse = vlength pixelToMouseDirection;
          strength = smoothstep 0.3 0.0 pixelDistanceToMouse
      in vmulf (fmulv strength (vneg mouseDirection)) 0.4)"

definition fragmentShader :: "(vec2 \<Rightarrow> 'c) \<Rightarrow> vec2 \<Rightarrow> vec2 \<Rightarrow> vec2 \<Rightarrow> 'c" where
  "fragmentShader u_texture u_mouse u_prevMouse vUv =
     (let uv = vsub vUv (uvOffset u_mouse u_prevMouse vUv);
          color = texture2D u_texture uv
      in color)"

section \<open>The page: window, document and frame scheduler\<close>

text \<open>
  JavaScript numbers are modelled as real numbers (no rounding, no \<^verbatim>\<open>NaN\<close>, no infinity):
  a quotient of the model is the quotient of the code wherever the divisor is not zero.
  \<^verbatim>\<open>window.innerWidth\<close> and \<^verbatim>\<open>window.innerHeight\<close> are whole numbers of pixels.
  DOM nodes are numbered; the document hands out the next free number for each created
  element. The handlers of the one effect instance are named by a tag, since
  \<^verbatim>\<open>addEventListener\<close> and \<^verbatim>\<open>removeEventListener\<close> compare the function they are given.
\<close>

text \<open>
  The text of an element is a JavaScript string that \<^verbatim>\<open>trim\<close> inspects: it is modelled as
  the list of its UTF-16 code units. \<^verbatim>\<open>utf16\<close> gives the code units of an ASCII literal.
\<close>

type_synonym js_text = "nat list"

definition utf16 :: "string \<Rightarrow> js_text" where
  "utf16 s = map of_char s"

datatype handler = HandleMouseMove | HandleMouseEnter | HandleMouseLeave | OnWindowResize

datatype event_target = Window | Element nat

datatype dom_error = NotFoundError | SyntaxError

record font_spec =
  font_weight :: string
  font_size :: nat
  font_family :: string

text \<open>The calls the code makes into the graphics library and the console, in order.\<close>

datatype call =
    CanvasTexture nat nat
  | UpdateProjectionMatrix
  | SetSize nat nat
  | Render
  | Dispose
  | Warn string

record host =
  innerWidth :: nat
  innerHeight :: nat
  devicePixelRatio :: real
  measureText :: "font_spec \<Rightarrow> js_text \<Rightarrow> real"
  querySelector :: "string \<Rightarrow> dom_error + nat option"
  textContent :: "nat \<Rightarrow> js_text"
  tagName :: "nat \<Rightarrow> string"
  classList :: "nat \<Rightarrow> string list"
  style :: "nat \<Rightarrow> (string \<times> string) list"
  computedPosition :: "nat \<Rightarrow> string"
  childNodes :: "nat \<Rightarrow> nat list"
  nextNode :: nat
  listeners :: "(event_target \<times> string \<times> handler) list"
  frames :: "nat list"
  nextHandle :: nat
  calls :: "call list"

definition createElement :: "string \<Rightarrow> host \<Rightarrow> nat \<times> host" where
  "createElement tag h =
     (nextNode h, h\<lparr>tagName := (tagName h)(nextNode h := tag), nextNode := Suc (nextNode h)\<rparr>)"

text \<open>\<^verbatim>\<open>appendChild\<close> moves the node: it leaves its former parent and becomes the last child.\<close>

definition appendChild :: "nat \<Rightarrow> nat \<Rightarrow> host \<Rightarrow> host" where
  "appendChild parent child h =
     h\<lparr>childNodes := (\<lambda>p. if p = parent then removeAll child (childNodes h p) @ [child]
                             else removeAll child (childNodes h p))\<rparr>"

text \<open>\<^verbatim>\<open>removeChild\<close> throws \<^verbatim>\<open>NotFoundError\<close> when the node is not a child of the parent.\<close>

definition removeChild :: "nat \<Rightarrow> nat \<Rightarrow> host \<Rightarrow> dom_error + host" where
  "removeChild parent child h =
     (if child \<in> set (childNodes h parent)
      then Inr (h\<lparr>childNodes := (childNodes h)(parent := remove1 child (childNodes h parent))\<rparr>)
      else Inl NotFoundError)"

definition addClass :: "nat \<Rightarrow> string \<Rightarrow> host \<Rightarrow> host" where
  "addClass n c h =
     (if c \<in> set (classList h n) then h
      else h\<lparr>classList := (classList h)(n := classList h n @ [c])\<rparr>)"

text \<open>
  Writing a property of \<^verbatim>\<open>element.style\<close>; an inline \<^verbatim>\<open>position\<close> is what
  \<^verbatim>\<open>getComputedStyle\<close> reports afterwards.
\<close>

definition setStyle :: "nat \<Rightarrow> string \<Rightarrow> string \<Rightarrow> host \<Rightarrow> host" where
  "setStyle n k v h =
     h\<lparr>style := (style h)(n := AList.update k v (style h n)),
       computedPosition := (if k = ''position'' then (computedPosition h)(n := v)
                            else computedPosition h)\<rparr>"

text \<open>A listener that is already registered is not registered twice.\<close>

definition addEventListener :: "event_target \<Rightarrow> string \<Rightarrow> handler \<Rightarrow> host \<Rightarrow> host" where
  "addEventListener tgt ty f h =
     (if (tgt, ty, f) \<in> set (listeners h) then h
      else h\<lparr>listeners := listeners h @ [(tgt, ty, f)]\<rparr>)"

definition removeEventListener :: "event_target \<Rightarrow> string \<Rightarrow> handler \<Rightarrow> host \<Rightarrow> host" where
  "removeEventListener tgt ty f h = h\<lparr>listeners := removeAll (tgt, ty, f) (listeners h)\<rparr>"

text \<open>
  \<^verbatim>\<open>frames\<close> holds the handles of the callbacks waiting for the next frame; every one of
  them is the \<^verbatim>\<open>animate\<close> of the effect.
\<close>

definition requestAnimationFrame :: "host \<Rightarrow> nat \<times> host" where
  "requestAnimationFrame h =
     (nextHandle h, h\<lparr>frames := frames h @ [nextHandle h], nextHandle := Suc (nextHandle h)\<rparr>)"

text \<open>Cancelling \<^verbatim>\<open>undefined\<close> (no handle stored yet) does nothing.\<close>

definition cancelAnimationFrame :: "nat option \<Rightarrow> host \<Rightarrow> host" where
  "cancelAnimationFrame handle h =
     (case handle of None \<Rightarrow> h | Some i \<Rightarrow> h\<lparr>frames := removeAll i (frames h)\<rparr>)"

text \<open>
  \<^verbatim>\<open>String.prototype.trim\<close> strips the white space and the line terminators of the
  language from both ends: tab, line feed, vertical tab, form feed, carriage return, space,
  U+00A0, U+1680, U+2000 to U+200A, U+2028, U+2029, U+202F, U+205F, U+3000 and U+FEFF.
\<close>

definition is_space :: "nat \<Rightarrow> bool" where
  "is_space c =
     (c \<in> set [0x0009, 0x000A, 0x000B, 0x000C, 0x000D, 0x0020, 0x00A0, 0x1680,
                0x2000, 0x2001, 0x2002, 0x2003, 0x2004, 0x2005, 0x2006, 0x2007,
                0x2008, 0x2009, 0x200A, 0x2028, 0x2029, 0x202F, 0x205F, 0x3000, 0xFEFF])"

definition trim :: "js_text \<Rightarrow> js_text" where
  "trim s = rev (dropWhile is_space (rev (dropWhile is_space s)))"

section \<open>The effect\<close>

record point =
  pos_x :: real
  pos_y :: real

record dom_rect =
  rect_left :: real
  rect_top :: real
  rect_width :: real
  rect_height :: real

text \<open>
  A mouse event, with the box that \<^verbatim>\<open>container.getBoundingClientRect()\<close> returns when the
  handler runs.
\<close>

record mouse_event =
  clientX :: real
  clientY :: real
  rect :: dom_rect

text \<open>The canvas that \<^verbatim>\<open>createTextTexture\<close> draws, as the drawing calls leave it.\<close>

record texture =
  canvas :: nat
  canvas_width :: nat
  canvas_height :: nat
  background :: string
  text_font :: font_spec
  scale_x :: real
  skew_y :: real
  skew_x :: real
  scale_y :: real
  translate_x :: real
  translate_y :: real
  lineWidth :: real
  strokeTexts :: nat
  fillTexts :: nat
  drawn :: js_text

record camera =
  cam_left :: real
  cam_right :: real
  cam_top :: real
  cam_bottom :: real
  cam_near :: real
  cam_far :: real
  position_z :: real
  projection :: "real \<times> real \<times> real \<times> real"

record renderer =
  domElement :: nat
  clearColor :: "nat \<times> real"
  renderer_size :: "nat \<times> nat"
  pixelRatio :: real
  disposed :: bool

text \<open>The fields the constructor sets before it calls \<^verbatim>\<open>init\<close>.\<close>

record effect_base =
  container :: nat
  effect_text :: js_text
  font :: string
  color :: string
  fontWeight :: string
  easeFactor :: real
  mousePosition :: point
  targetMousePosition :: point
  prevPosition :: point

text \<open>The fields \<^verbatim>\<open>init\<close> and \<^verbatim>\<open>animate\<close> add.\<close>

record effect = effect_base +
  camera :: camera
  u_mouse :: vec2
  u_prevMouse :: vec2
  u_texture :: texture
  renderer :: renderer
  animationFrame :: "nat option"

text \<open>
  \<^verbatim>\<open>createTextTexture\<close> (lines 74 to 128). The three \<^verbatim>\<open>strokeText\<close> calls of the loop and
  the \<^verbatim>\<open>fillText\<close> call are counted.
\<close>

definition createTextTexture :: "'a effect_base_scheme \<Rightarrow> host \<Rightarrow> texture \<times> host" where
  "createTextTexture this h =
     (let (cv, h1) = createElement ''canvas'' h;
          canvasWidth = innerWidth h * 2;
          canvasHeight = innerHeight h * 2;
          fillStyle = (if color this = [] then ''#ffffff'' else color this);
          fontSize = canvasWidth * 2;
          fnt = \<lparr>font_weight = fontWeight this, font_size = fontSize, font_family = font this\<rparr>;
          textWidth = measureText h fnt (effect_text this);
          scaleFactor = min 1 ((real canvasWidth * 1) / textWidth);
          aspectCorrection = real canvasWidth / real canvasHeight
      in (\<lparr>canvas = cv, canvas_width = canvasWidth, canvas_height = canvasHeight,
            background = fillStyle, text_font = fnt,
            scale_x = scaleFactor, skew_y = 0, skew_x = 0,
            scale_y = scaleFactor / aspectCorrection,
            translate_x = real canvasWidth / 2, translate_y = real canvasHeight / 2,
            lineWidth = real fontSize * 0.005, strokeTexts = 3, fillTexts = 1,
            drawn = effect_text this\<rparr>,
          h1\<lparr>calls := calls h1 @ [CanvasTexture canvasWidth canvasHeight]\<rparr>))"

text \<open>
  The three mouse handlers (lines 266 to 300). The spread \<^verbatim>\<open>{ ...p }\<close> copies a point, and
  the constructor creates three separate objects, so the current, target and previous
  positions never share an object: they are modelled as values.
\<close>

definition handleMouseMove :: "mouse_event \<Rightarrow> effect \<Rightarrow> effect" where
  "handleMouseMove event this =
     this\<lparr>easeFactor := 0.035,
          prevPosition := targetMousePosition this,
          targetMousePosition :=
            \<lparr>pos_x = (clientX event - rect_left (rect event)) / rect_width (rect event),
             pos_y = (clientY event - rect_top (rect event)) / rect_height (rect event)\<rparr>\<rparr>"

definition handleMouseEnter :: "mouse_event \<Rightarrow> effect \<Rightarrow> effect" where
  "handleMouseEnter event this =
     (let x = (clientX event - rect_left (rect event)) / rect_width (rect event);
          y = (clientY event - rect_top (rect event)) / rect_height (rect event)
      in this\<lparr>easeFactor := 0.01,
              mousePosition := \<lparr>pos_x = x, pos_y = y\<rparr>,
              targetMousePosition := \<lparr>pos_x = x, pos_y = y\<rparr>\<rparr>)"

definition handleMouseLeave :: "effect \<Rightarrow> effect" where
  "handleMouseLeave this = this\<lparr>easeFactor := 0.01, targetMousePosition := prevPosition this\<rparr>"

text \<open>\<^verbatim>\<open>animate\<close> (lines 328 to 346): one tick of the render loop.\<close>

definition animate :: "effect \<Rightarrow> host \<Rightarrow> effect \<times> host" where
  "animate this h =
     (let (handle, h1) = requestAnimationFrame h;
          x = pos_x (mousePosition this)
                + (pos_x (targetMousePosition this) - pos_x (mousePosition this)) * easeFactor this;
          y = pos_y (mousePosition this)
                + (pos_y (targetMousePosition this) - pos_y (mousePosition this)) * easeFactor this
      in (this\<lparr>animationFrame := Some handle,
               mousePosition := \<lparr>pos_x = x, pos_y = y\<rparr>,
               u_mouse := Vec2 x (1.0 - y),
               u_prevMouse := Vec2 (pos_x (prevPosition this)) (1.0 - pos_y (prevPosition this))\<rparr>,
          h1\<lparr>calls := calls h1 @ [Render]\<rparr>))"

text \<open>\<^verbatim>\<open>onWindowResize\<close> (lines 308 to 318).\<close>

definition onWindowResize :: "effect \<Rightarrow> host \<Rightarrow> effect \<times> host" where
  "onWindowResize this h =
     (let aspectRatio = real (innerWidth h) / real (innerHeight h);
          cam = (camera this)\<lparr>cam_left := - 1, cam_right := 1,
                   cam_top := 1 / aspectRatio, cam_bottom := - 1 / aspectRatio,
                   projection := (- 1, 1, 1 / aspectRatio, - 1 / aspectRatio)\<rparr>;
          h1 = h\<lparr>calls := calls h @ [UpdateProjectionMatrix]\<rparr>;
          rend = (renderer this)\<lparr>renderer_size := (innerWidth h1, innerHeight h1)\<rparr>;
          h2 = h1\<lparr>calls := calls h1 @ [SetSize (innerWidth h1) (innerHeight h1)]\<rparr>;
          (tex, h3) = createTextTexture this h2
      in (this\<lparr>camera := cam, renderer := rend, u_texture := tex\<rparr>, h3))"

text \<open>\<^verbatim>\<open>addEventListeners\<close> (lines 251 to 256).\<close>

definition addEventListeners :: "effect \<Rightarrow> host \<Rightarrow> host" where
  "addEventListeners this h =
     addEventListener Window ''resize'' OnWindowResize
       (addEventListener (Element (container this)) ''mouseleave'' HandleMouseLeave
         (addEventListener (Element (container this)) ''mouseenter'' HandleMouseEnter
           (addEventListener (Element (container this)) ''mousemove'' HandleMouseMove h)))"

text \<open>
  The options of the constructor (lines 32 to 38). The container is mandatory; a key that
  is absent is \<open>None\<close> and takes the default of the destructuring pattern.
\<close>

record options =
  opt_container :: nat
  opt_text :: "js_text option"
  opt_font :: "string option"
  opt_color :: "string option"
  opt_fontWeight :: "string option"

text \<open>
  \<^verbatim>\<open>init\<close> (lines 137 to 244). The scene and the plane mesh only hold the uniforms and are
  left out; the canvas of the renderer is a new node; the projection of a new camera is
  computed from its bounds. A page without WebGL, where the renderer cannot be created,
  is outside the model.
\<close>

definition init :: "effect_base \<Rightarrow> host \<Rightarrow> effect \<times> host" where
  "init base h =
     (let aspectRatio = real (innerWidth h) / real (innerHeight h);
          cam = \<lparr>cam_left = - 1, cam_right = 1,
                 cam_top = 1 / aspectRatio, cam_bottom = - 1 / aspectRatio,
                 cam_near = 0.1, cam_far = 1000, position_z = 1,
                 projection = (- 1, 1, 1 / aspectRatio, - 1 / aspectRatio)\<rparr>;
          (tex, h1) = createTextTexture base h;
          (dom, h1a) = createElement ''canvas'' h1;
          rend = \<lparr>domElement = dom, clearColor = (0xffffff, 1),
                  renderer_size = (innerWidth h1a, innerHeight h1a),
                  pixelRatio = devicePixelRatio h1a, disposed = False\<rparr>;
          h2 = h1a\<lparr>calls := calls h1a @ [SetSize (innerWidth h1a) (innerHeight h1a)]\<rparr>;
          this = \<lparr>container = container base, effect_text = effect_text base,
                  font = font base, color = color base, fontWeight = fontWeight base,
                  easeFactor = easeFactor base, mousePosition = mousePosition base,
                  targetMousePosition = targetMousePosition base,
                  prevPosition = prevPosition base,
                  camera = cam, u_mouse = Vec2 0 0, u_prevMouse = Vec2 0 0,
                  u_texture = tex, renderer = rend, animationFrame = None\<rparr>;
          h3 = appendChild (container this) (domElement (renderer this)) h2;
          (this1, h4) = animate this h3
      in (this1, addEventListeners this1 h4))"

definition PixelatedTextEffect :: "options \<Rightarrow> host \<Rightarrow> effect \<times> host" where
  "PixelatedTextEffect opts h =
     init \<lparr>container = opt_container opts,
           effect_text = (case opt_text opts of None \<Rightarrow> utf16 ''zayno'' | Some t \<Rightarrow> t),
           font = (case opt_font opts of None \<Rightarrow> ''Rinter'' | Some f \<Rightarrow> f),
           color = (case opt_color opts of None \<Rightarrow> ''#ffffff'' | Some c \<Rightarrow> c),
           fontWeight = (case opt_fontWeight opts of None \<Rightarrow> ''100'' | Some w \<Rightarrow> w),
           easeFactor = 0.02,
           mousePosition = \<lparr>pos_x = 0.5, pos_y = 0.5\<rparr>,
           targetMousePosition = \<lparr>pos_x = 0.5, pos_y = 0.5\<rparr>,
           prevPosition = \<lparr>pos_x = 0.5, pos_y = 0.5\<rparr>\<rparr> h"

text \<open>
  \<^verbatim>\<open>destroy\<close> (lines 355 to 363). When \<^verbatim>\<open>removeChild\<close> throws, the statements before it
  have run and \<^verbatim>\<open>dispose\<close> has not: the error comes with the page as it is then.
\<close>

definition destroy :: "effect \<Rightarrow> host \<Rightarrow> (dom_error \<times> host) + (effect \<times> host)" where
  "destroy this h =
     (let h1 = cancelAnimationFrame (animationFrame this) h;
          h2 = removeEventListener (Element (container this)) ''mousemove'' HandleMouseMove h1;
          h3 = removeEventListener (Element (container this)) ''mouseenter'' HandleMouseEnter h2;
          h4 = removeEventListener (Element (container this)) ''mouseleave'' HandleMouseLeave h3;
          h5 = removeEventListener Window ''resize'' OnWindowResize h4
      in case removeChild (container this) (domElement (renderer this)) h5 of
           Inl e \<Rightarrow> Inl (e, h5)
         | Inr h6 \<Rightarrow>
             Inr (this\<lparr>renderer := (renderer this)\<lparr>disposed := True\<rparr>\<rparr>,
                  h6\<lparr>calls := calls h6 @ [Dispose]\<rparr>))"

text \<open>
  The second argument of \<^verbatim>\<open>applyPixelatedTextTo\<close>: an object of options in which every key,
  the container too, may be absent.
\<close>

record overrides =
  ov_container :: "nat option"
  ov_text :: "js_text option"
  ov_font :: "string option"
  ov_color :: "string option"
  ov_fontWeight :: "string option"

text \<open>
  \<^verbatim>\<open>applyPixelatedTextTo\<close> (lines 381 to 418). \<^verbatim>\<open>document.querySelector\<close> throws
  \<^verbatim>\<open>SyntaxError\<close> on a selector that does not parse; nothing catches it, so the call ends
  with that error and the page as it was. In the object
  \<^verbatim>\<open>{ container: overlay, text, ...options }\<close> a key of \<^verbatim>\<open>options\<close> replaces the key
  written before the spread.
\<close>

definition applyPixelatedTextTo ::
  "string \<Rightarrow> overrides \<Rightarrow> host \<Rightarrow> (dom_error \<times> host) + (effect option \<times> host)" where
  "applyPixelatedTextTo selector ov h =
     (case querySelector h selector of
        Inl e \<Rightarrow> Inl (e, h)
      | Inr None \<Rightarrow>
          Inr (None,
               h\<lparr>calls := calls h @ [Warn (''Element not found for selector: '' @ selector)]\<rparr>)
      | Inr (Some el) \<Rightarrow>
          (let txt = trim (textContent h el);
               (overlay, h1) = createElement ''div'' h;
               h2 = addClass overlay ''pixelated-overlay'' h1;
               h3 = setStyle overlay ''pointerEvents'' ''none''
                      (setStyle overlay ''zIndex'' ''1''
                        (setStyle overlay ''inset'' ''0''
                          (setStyle overlay ''position'' ''absolute'' h2)));
               h4 = (if computedPosition h3 el = ''static''
                     then setStyle el ''position'' ''relative'' h3 else h3);
               h5 = appendChild el overlay h4;
               (this, h6) = PixelatedTextEffect
                    \<lparr>opt_container = (case ov_container ov of None \<Rightarrow> overlay | Some c \<Rightarrow> c),
                     opt_text = (case ov_text ov of None \<Rightarrow> Some txt | Some t \<Rightarrow> Some t),
                     opt_font = ov_font ov,
                     opt_color = ov_color ov,
                     opt_fontWeight = ov_fontWeight ov\<rparr> h5
           in Inr (Some this, h6)))"

section \<open>Events\<close>

text \<open>
  What the page does to a constructed effect: it delivers a mouse event or a resize to
  the handler registered for it (and to nothing when none is registered), or it runs a
  frame, which calls every callback waiting in \<^verbatim>\<open>frames\<close>. A resize changes the size of the
  window first.
\<close>

datatype event =
    MouseMove mouse_event
  | MouseEnter mouse_event
  | MouseLeave
  | Resize nat nat
  | Frame

fun is_move :: "event \<Rightarrow> bool" where
  "is_move (MouseMove e) = True"
| "is_move ev = False"

fun dispatch :: "event \<Rightarrow> effect \<times> host \<Rightarrow> effect \<times> host" where
  "dispatch (MouseMove e) (this, h) =
     (if (Element (container this), ''mousemove'', HandleMouseMove) \<in> set (listeners h)
      then (handleMouseMove e this, h) else (this, h))"
| "dispatch (MouseEnter e) (this, h) =
     (if (Element (container this), ''mouseenter'', HandleMouseEnter) \<in> set (listeners h)
      then (handleMouseEnter e this, h) else (this, h))"
| "dispatch MouseLeave (this, h) =
     (if (Element (container this), ''mouseleave'', HandleMouseLeave) \<in> set (listeners h)
      then (handleMouseLeave this, h) else (this, h))"
| "dispatch (Resize w ht) (this, h) =
     (let h1 = h\<lparr>innerWidth := w, innerHeight := ht\<rparr>
      in if (Window, ''resize'', OnWindowResize) \<in> set (listeners h1)
         then onWindowResize this h1 else (this, h1))"
| "dispatch Frame (this, h) =
     fold (\<lambda>handle (t, k). animate t k) (frames h) (this, h\<lparr>frames := []\<rparr>)"

definition run :: "event list \<Rightarrow> effect \<times> host \<Rightarrow> effect \<times> host" where
  "run evs w = fold dispatch evs w"

text \<open>The number of draws among the calls made so far.\<close>

definition draws :: "host \<Rightarrow> nat" where
  "draws h = count_list (calls h) Render"

section \<open>States of a constructed effect\<close>

text \<open>
  Three conditions on an effect and its page, kept by every event: the four handlers are
  registered; exactly one frame callback is waiting, under the stored handle; the canvas of
  the renderer is a child of the container, once. A fourth one holds after teardown:
  nothing is waiting and none of the four handlers is registered.
\<close>

definition listening :: "effect \<Rightarrow> host \<Rightarrow> bool" where
  "listening this h =
     ((Element (container this), ''mousemove'', HandleMouseMove) \<in> set (listeners h)
      \<and> (Element (container this), ''mouseenter'', HandleMouseEnter) \<in> set (listeners h)
      \<and> (Element (container this), ''mouseleave'', HandleMouseLeave) \<in> set (listeners h)
      \<and> (Window, ''resize'', OnWindowResize) \<in> set (listeners h))"

definition scheduled :: "effect \<Rightarrow> host \<Rightarrow> bool" where
  "scheduled this h = (case animationFrame this of None \<Rightarrow> False | Some i \<Rightarrow> frames h = [i])"

definition mounted :: "effect \<Rightarrow> host \<Rightarrow> bool" where
  "mounted this h =
     (domElement (renderer this) \<in> set (childNodes h (container this))
      \<and> domElement (renderer this)
            \<notin> set (remove1 (domElement (renderer this)) (childNodes h (container this))))"

definition detached :: "effect \<Rightarrow> host \<Rightarrow> bool" where
  "detached this h =
     ((Element (container this), ''mousemove'', HandleMouseMove) \<notin> set (listeners h)
      \<and> (Element (container this), ''mouseenter'', HandleMouseEnter) \<notin> set (listeners h)
      \<and> (Element (container this), ''mouseleave'', HandleMouseLeave) \<notin> set (listeners h)
      \<and> (Window, ''resize'', OnWindowResize) \<notin> set (listeners h))"

section \<open>A sample page\<close>

text \<open>
  A window of 800 by 600 pixels with two elements: node 0, a heading matched by
  \<^verbatim>\<open>#title\<close>, and node 1, a block matched by \<^verbatim>\<open>#other\<close>; the empty selector does not
  parse. Every glyph is half as wide as the font size. The sample inputs of the closed
  theorems below.
\<close>

definition page :: host where
  "page = \<lparr>innerWidth = 800, innerHeight = 600, devicePixelRatio = 1,
           measureText = (\<lambda>f s. real (font_size f) * real (length s) / 2),
           querySelector = (\<lambda>s. if s = [] then Inl SyntaxError
                                 else if s = ''#title'' then Inr (Some 0)
                                 else if s = ''#other'' then Inr (Some 1) else Inr None),
           textContent = (\<lambda>n. if n = 0 then utf16 '' HELLO '' else []),
           tagName = (\<lambda>n. if n = 0 then ''h1'' else if n = 1 then ''div'' else []),
           classList = (\<lambda>n. []),
           style = (\<lambda>n. []),
           computedPosition = (\<lambda>n. ''static''),
           childNodes = (\<lambda>n. []),
           nextNode = 2, listeners = [], frames = [], nextHandle = 0, calls = []\<rparr>"

definition title_options :: options where
  "title_options = \<lparr>opt_container = 0, opt_text = Some (utf16 ''HELLO''), opt_font = None,
                    opt_color = None, opt_fontWeight = None\<rparr>"

definition unit_box :: dom_rect where
  "unit_box = \<lparr>rect_left = 100, rect_top = 200, rect_width = 100, rect_height = 100\<rparr>"

definition pointer_at :: "real \<Rightarrow> real \<Rightarrow> mouse_event" where
  "pointer_at cx cy = \<lparr>clientX = cx, clientY = cy, rect = unit_box\<rparr>"

definition title_base :: effect_base where
  "title_base = \<lparr>container = 0, effect_text = utf16 ''HELLO'', font = ''Rinter'',
                 color = ''#ffffff'', fontWeight = ''100'', easeFactor = 0.02,
                 mousePosition = \<lparr>pos_x = 0.5, pos_y = 0.5\<rparr>,
                 targetMousePosition = \<lparr>pos_x = 0.5, pos_y = 0.5\<rparr>,
                 prevPosition = \<lparr>pos_x = 0.5, pos_y = 0.5\<rparr>\<rparr>"

definition other_container :: overrides where
  "other_container = \<lparr>ov_container = Some 1, ov_text = None, ov_font = None,
                       ov_color = None, ov_fontWeight = None\<rparr>"

section \<open>Properties of the shader\<close>

lemma hermite_mono:
  fixes s t :: real
  assumes "0 \<le> s" "s \<le> t" "t \<le> 1"
  shows "s * s * (3 - 2 * s) \<le> t * t * (3 - 2 * t)"
proof -
  have "t * t * (3 - 2 * t) - s * s * (3 - 2 * s)
          = (t - s) * (3 * (t + s) - 2 * (t * t + t * s + s * s))"
    by (simp add: algebra_simps)
  moreover have "0 \<le> t - s" using assms by simp
  moreover have "0 \<le> 3 * (t + s) - 2 * (t * t + t * s + s * s)"
  proof -
    have a: "t * t \<le> t" using assms mult_left_le [of t t] by simp
    have b: "s * s \<le> s" using assms mult_left_le [of s s] by simp
    have c: "t * s \<le> s" using assms mult_left_le_one_le [of s t] by simp
    from a b c assms show ?thesis by simp
  qed
  ultimately have "0 \<le> t * t * (3 - 2 * t) - s * s * (3 - 2 * s)"
    by simp
  then show ?thesis by simp
qed

lemma clamp_unit: "0 \<le> clamp x 0 1 \<and> clamp x 0 1 \<le> 1"
  by (simp add: clamp_def)

lemma clamp_mono: "x \<le> y \<Longrightarrow> clamp x 0 1 \<le> clamp y 0 1"
  by (simp add: clamp_def min_def max_def)

lemma strength_antimono:
  assumes "d1 \<le> d2"
  shows "smoothstep 0.3 0.0 d2 \<le> smoothstep 0.3 0.0 d1"
proof -
  let ?t = "\<lambda>d::real. clamp ((d - 0.3) / (0.0 - 0.3)) 0 1"
  have "(d2 - 0.3) / (0.0 - 0.3) \<le> (d1 - 0.3) / (0.0 - 0.3)"
    using assms by (simp add: field_simps)
  then have "?t d2 \<le> ?t d1" by (rule clamp_mono)
  moreover have "0 \<le> ?t d2" and "?t d1 \<le> 1" using clamp_unit by blast+
  ultimately have "?t d2 * ?t d2 * (3 - 2 * ?t d2) \<le> ?t d1 * ?t d1 * (3 - 2 * ?t d1)"
    by (intro hermite_mono)
  then show ?thesis by (simp add: smoothstep_def Let_def)
qed

lemma strength_at_zero: "smoothstep 0.3 0.0 0 = 1"
  by (simp add: smoothstep_def clamp_def Let_def)

lemma strength_outside: "0.3 \<le> d \<Longrightarrow> smoothstep 0.3 0.0 d = 0"
  by (simp add: smoothstep_def clamp_def Let_def max_def min_def field_simps)

text \<open>
  Claim C5. The distortion strength \<^verbatim>\<open>smoothstep(0.3, 0.0, dist)\<close> never grows when the
  distance grows: for distances \<open>0 \<le> d1 \<le> d2\<close> the strength at \<open>d2\<close> is at most the strength
  at \<open>d1\<close>, which is at most the strength at distance 0 (the maximum, equal to 1), and
  the strength is exactly 0 at every distance of 0.3 or more.
\<close>

theorem strength_monotone_and_cutoff:
  assumes "0 \<le> d1" and "d1 \<le> d2"
  shows "smoothstep 0.3 0.0 d2 \<le> smoothstep 0.3 0.0 d1
       \<and> smoothstep 0.3 0.0 d1 \<le> smoothstep 0.3 0.0 0
       \<and> smoothstep 0.3 0.0 0 = 1
       \<and> (0.3 \<le> d2 \<longrightarrow> smoothstep 0.3 0.0 d2 = 0)"
  using assms strength_antimono [of d1 d2] strength_antimono [of 0 d1]
    strength_at_zero strength_outside [of d2]
  by simp

theorem strength_monotone_and_cutoff_witness:
  "(0::real) \<le> 0.15 \<and> (0.15::real) \<le> 0.3 \<and> (0.3::real) \<le> 0.3
   \<and> smoothstep 0.3 0.0 0.3 \<le> smoothstep 0.3 0.0 0.15
   \<and> smoothstep 0.3 0.0 0.15 \<le> smoothstep 0.3 0.0 0
   \<and> smoothstep 0.3 0.0 0.15 = 1 / 2
   \<and> smoothstep 0.3 0.0 0.3 = 0"
proof -
  have h1: "(0::real) \<le> 0.15" by simp
  have h2: "(0.15::real) \<le> 0.3" by simp
  have v: "smoothstep 0.3 0.0 0.15 = 1 / 2"
    by (simp add: smoothstep_def clamp_def Let_def)
  show ?thesis
    using strength_monotone_and_cutoff [OF h1 h2] v by simp
qed

text \<open>
  Claim C1. For every coordinate \<open>uv\<close> (those of the unit square among them) and all
  mouse uniforms, the shader emits the texture's colour at \<open>uv - offset\<close>, where
  \<open>gridCoord = floor(uv * 40) / 40\<close>, \<open>center = gridCoord + (1/40, 1/40)\<close>,
  \<open>strength = smoothstep(0.3, 0.0, length(center - mouse))\<close> and
  \<open>offset = strength * -(mouse - prevMouse) * 0.4\<close>, written out on the two components.
\<close>

theorem fragmentShader_samples_offset:
  "fragmentShader tex (Vec2 mx my) (Vec2 px py) (Vec2 u v) =
     (let gridCoord_x = of_int \<lfloor>u * 40\<rfloor> / 40;
          gridCoord_y = of_int \<lfloor>v * 40\<rfloor> / 40;
          center_x = gridCoord_x + 1 / 40;
          center_y = gridCoord_y + 1 / 40;
          distance = sqrt ((center_x - mx) * (center_x - mx) + (center_y - my) * (center_y - my));
          strength = smoothstep 0.3 0.0 distance;
          offset_x = strength * - (mx - px) * 0.4;
          offset_y = strength * - (my - py) * 0.4
      in tex (Vec2 (u - offset_x) (v - offset_y)))"
  unfolding fragmentShader_def uvOffset_def texture2D_def Let_def
    vadd_def vsub_def vmul_def vdiv_def vneg_def fmulv_def vmulf_def vfloor_def vlength_def
    vec2.sel
  by (rule refl)

text \<open>
  Claim C10. When the mouse uniform equals the previous-mouse uniform, the offset is the
  zero vector and the shader emits the texture's colour at the unmodified \<open>uv\<close>, however
  close \<open>uv\<close> is to the pointer.
\<close>

theorem fragmentShader_stationary:
  "uvOffset m m uv = Vec2 0 0 \<and> fragmentShader tex m m uv = tex uv"
  by (simp add: fragmentShader_def uvOffset_def texture2D_def Let_def
      vsub_def vneg_def fmulv_def vmulf_def)

section \<open>What each operation changes\<close>

lemma createTextTexture_host:
  "listeners (snd (createTextTexture this h)) = listeners h"
  "frames (snd (createTextTexture this h)) = frames h"
  "childNodes (snd (createTextTexture this h)) = childNodes h"
  "innerWidth (snd (createTextTexture this h)) = innerWidth h"
  "innerHeight (snd (createTextTexture this h)) = innerHeight h"
  "calls (snd (createTextTexture this h)) =
     calls h @ [CanvasTexture (innerWidth h * 2) (innerHeight h * 2)]"
  by (simp_all add: createTextTexture_def createElement_def Let_def)

lemma createTextTexture_size:
  "canvas_width (fst (createTextTexture this h)) = innerWidth h * 2"
  "canvas_height (fst (createTextTexture this h)) = innerHeight h * 2"
  by (simp_all add: createTextTexture_def createElement_def Let_def)

lemma animate_effect:
  "container (fst (animate this h)) = container this"
  "renderer (fst (animate this h)) = renderer this"
  "prevPosition (fst (animate this h)) = prevPosition this"
  "targetMousePosition (fst (animate this h)) = targetMousePosition this"
  "easeFactor (fst (animate this h)) = easeFactor this"
  "animationFrame (fst (animate this h)) = Some (nextHandle h)"
  by (simp_all add: animate_def requestAnimationFrame_def Let_def)

lemma animate_host:
  "listeners (snd (animate this h)) = listeners h"
  "childNodes (snd (animate this h)) = childNodes h"
  "frames (snd (animate this h)) = frames h @ [nextHandle h]"
  "calls (snd (animate this h)) = calls h @ [Render]"
  by (simp_all add: animate_def requestAnimationFrame_def Let_def)

lemma onWindowResize_effect:
  "container (fst (onWindowResize this h)) = container this"
  "domElement (renderer (fst (onWindowResize this h))) = domElement (renderer this)"
  "prevPosition (fst (onWindowResize this h)) = prevPosition this"
  "targetMousePosition (fst (onWindowResize this h)) = targetMousePosition this"
  "animationFrame (fst (onWindowResize this h)) = animationFrame this"
  by (simp_all add: onWindowResize_def Let_def split_beta)

lemma onWindowResize_host:
  "listeners (snd (onWindowResize this h)) = listeners h"
  "childNodes (snd (onWindowResize this h)) = childNodes h"
  "frames (snd (onWindowResize this h)) = frames h"
  "calls (snd (onWindowResize this h)) =
     calls h @ [UpdateProjectionMatrix, SetSize (innerWidth h) (innerHeight h),
                CanvasTexture (innerWidth h * 2) (innerHeight h * 2)]"
  by (simp_all add: onWindowResize_def Let_def split_beta createTextTexture_host)

lemma onWindowResize_texture:
  "canvas_width (u_texture (fst (onWindowResize this h))) = innerWidth h * 2"
  "canvas_height (u_texture (fst (onWindowResize this h))) = innerHeight h * 2"
  by (simp_all add: onWindowResize_def Let_def split_beta createTextTexture_size)

lemma handler_effect:
  "container (handleMouseMove e this) = container this"
  "container (handleMouseEnter e this) = container this"
  "container (handleMouseLeave this) = container this"
  "renderer (handleMouseMove e this) = renderer this"
  "renderer (handleMouseEnter e this) = renderer this"
  "renderer (handleMouseLeave this) = renderer this"
  "animationFrame (handleMouseMove e this) = animationFrame this"
  "animationFrame (handleMouseEnter e this) = animationFrame this"
  "animationFrame (handleMouseLeave this) = animationFrame this"
  "prevPosition (handleMouseEnter e this) = prevPosition this"
  "prevPosition (handleMouseLeave this) = prevPosition this"
  by (simp_all add: handleMouseMove_def handleMouseEnter_def handleMouseLeave_def Let_def)

text \<open>
  Claim C3. For every pointer enter event on a container whose box has a positive width
  and height, with normalised coordinate \<open>(x, y)\<close>, the current and the target position
  both equal \<open>(x, y)\<close> as soon as the enter handler has run, the smoothing factor is 0.01,
  and the tick that follows leaves the current position at \<open>(x, y)\<close>: there is no easing
  on entry.
\<close>

theorem handleMouseEnter_snaps:
  assumes "0 < rect_width (rect e)" and "0 < rect_height (rect e)"
    and "x = (clientX e - rect_left (rect e)) / rect_width (rect e)"
    and "y = (clientY e - rect_top (rect e)) / rect_height (rect e)"
  shows "mousePosition (handleMouseEnter e this) = \<lparr>pos_x = x, pos_y = y\<rparr>
       \<and> targetMousePosition (handleMouseEnter e this) = \<lparr>pos_x = x, pos_y = y\<rparr>
       \<and> easeFactor (handleMouseEnter e this) = 0.01
       \<and> mousePosition (fst (animate (handleMouseEnter e this) h)) = \<lparr>pos_x = x, pos_y = y\<rparr>"
  using assms
  by (simp add: handleMouseEnter_def animate_def requestAnimationFrame_def Let_def)

theorem handleMouseEnter_snaps_witness:
  "0 < rect_width (rect (pointer_at 140 260)) \<and> 0 < rect_height (rect (pointer_at 140 260))
   \<and> mousePosition (handleMouseEnter (pointer_at 140 260) (fst (init title_base page)))
        = \<lparr>pos_x = 2 / 5, pos_y = 3 / 5\<rparr>
   \<and> targetMousePosition (handleMouseEnter (pointer_at 140 260) (fst (init title_base page)))
        = \<lparr>pos_x = 2 / 5, pos_y = 3 / 5\<rparr>
   \<and> easeFactor (handleMouseEnter (pointer_at 140 260) (fst (init title_base page))) = 0.01
   \<and> mousePosition (fst (animate (handleMouseEnter (pointer_at 140 260)
                                     (fst (init title_base page))) page))
        = \<lparr>pos_x = 2 / 5, pos_y = 3 / 5\<rparr>"
  using handleMouseEnter_snaps [of "pointer_at 140 260" "2 / 5" "3 / 5"
      "fst (init title_base page)" page]
  by (simp add: pointer_at_def unit_box_def)

text \<open>
  Claim C4. A tick moves each axis of the current position by
  \<open>(target - current) * smoothingFactor\<close>, then writes \<open>(current.x, 1 - current.y)\<close> and
  \<open>(previous.x, 1 - previous.y)\<close>, with the new current position, into the mouse
  uniforms; the target, the previous position and the smoothing factor stay as they were.
\<close>

theorem animate_tick:
  "pos_x (mousePosition (fst (animate this h))) =
      pos_x (mousePosition this)
        + (pos_x (targetMousePosition this) - pos_x (mousePosition this)) * easeFactor this
   \<and> pos_y (mousePosition (fst (animate this h))) =
      pos_y (mousePosition this)
        + (pos_y (targetMousePosition this) - pos_y (mousePosition this)) * easeFactor this
   \<and> u_mouse (fst (animate this h)) =
      Vec2 (pos_x (mousePosition (fst (animate this h))))
           (1 - pos_y (mousePosition (fst (animate this h))))
   \<and> u_prevMouse (fst (animate this h)) =
      Vec2 (pos_x (prevPosition this)) (1 - pos_y (prevPosition this))
   \<and> targetMousePosition (fst (animate this h)) = targetMousePosition this
   \<and> prevPosition (fst (animate this h)) = prevPosition this
   \<and> easeFactor (fst (animate this h)) = easeFactor this"
  by (simp add: animate_def requestAnimationFrame_def Let_def)

text \<open>
  Claim C6. When the measured width of the text is positive, the horizontal scale of the
  texture is \<open>scaleFactor = min(1, bitmapWidth / measuredTextWidth)\<close>, which is at most 1,
  and the vertical scale is \<open>scaleFactor / (bitmapWidth / bitmapHeight)\<close>. The width is
  measured in the font the code sets: the weight and family of the effect at a size of
  twice the bitmap width.
\<close>

theorem createTextTexture_scale:
  assumes "fnt = \<lparr>font_weight = fontWeight this, font_size = innerWidth h * 2 * 2,
                  font_family = font this\<rparr>"
    and "0 < measureText h fnt (effect_text this)"
  shows "scale_x (fst (createTextTexture this h)) =
           min 1 (real (canvas_width (fst (createTextTexture this h)))
                    / measureText h fnt (effect_text this))
       \<and> scale_x (fst (createTextTexture this h)) \<le> 1
       \<and> scale_y (fst (createTextTexture this h)) =
           scale_x (fst (createTextTexture this h))
             / (real (canvas_width (fst (createTextTexture this h)))
                  / real (canvas_height (fst (createTextTexture this h))))"
  using assms
  by (simp add: createTextTexture_def createElement_def Let_def)

theorem createTextTexture_scale_witness:
  "0 < measureText page \<lparr>font_weight = ''100'', font_size = 3200, font_family = ''Rinter''\<rparr>
         (utf16 ''HELLO'')
   \<and> canvas_width (fst (createTextTexture title_base page)) = 1600
   \<and> canvas_height (fst (createTextTexture title_base page)) = 1200
   \<and> scale_x (fst (createTextTexture title_base page)) = 1 / 5
   \<and> scale_x (fst (createTextTexture title_base page)) \<le> 1
   \<and> scale_y (fst (createTextTexture title_base page)) = 3 / 20"
proof -
  have f: "\<lparr>font_weight = ''100'', font_size = 3200, font_family = ''Rinter''\<rparr>
             = \<lparr>font_weight = fontWeight title_base, font_size = innerWidth page * 2 * 2,
                font_family = font title_base\<rparr>"
    by (simp add: title_base_def page_def)
  have t: "effect_text title_base = utf16 ''HELLO''"
    by (simp add: title_base_def)
  have m: "measureText page \<lparr>font_weight = ''100'', font_size = 3200, font_family = ''Rinter''\<rparr>
             (utf16 ''HELLO'') = 8000"
    by (simp add: page_def utf16_def)
  have w: "canvas_width (fst (createTextTexture title_base page)) = 1600"
    and ht: "canvas_height (fst (createTextTexture title_base page)) = 1200"
    by (simp_all add: createTextTexture_size page_def)
  have p: "0 < measureText page
                 \<lparr>font_weight = ''100'', font_size = 3200, font_family = ''Rinter''\<rparr>
                 (effect_text title_base)"
    by (simp add: t m)
  show ?thesis
    using createTextTexture_scale [OF f p] by (simp add: t m w ht)
qed

section \<open>Invariants of the event loop\<close>

lemma init_effect:
  "container (fst (init base h)) = container base"
  "targetMousePosition (fst (init base h)) = targetMousePosition base"
  "prevPosition (fst (init base h)) = prevPosition base"
  by (simp_all add: init_def Let_def split_beta animate_effect)

lemma addEventListener_set:
  "set (listeners (addEventListener tgt ty f h)) = insert (tgt, ty, f) (set (listeners h))"
  by (auto simp: addEventListener_def)

lemma addEventListener_other:
  "frames (addEventListener tgt ty f h) = frames h"
  "childNodes (addEventListener tgt ty f h) = childNodes h"
  "calls (addEventListener tgt ty f h) = calls h"
  by (simp_all add: addEventListener_def)

lemma listening_init: "listening (fst (init base h)) (snd (init base h))"
  by (simp add: listening_def init_def Let_def split_beta addEventListeners_def
      addEventListener_set animate_effect)

lemma scheduled_init:
  assumes "frames h = []"
  shows "scheduled (fst (init base h)) (snd (init base h))"
  using assms
  by (simp add: scheduled_def init_def Let_def split_beta addEventListeners_def
      addEventListener_other animate_effect animate_host appendChild_def
      createElement_def createTextTexture_host)

lemma remove1_removeAll_snoc: "remove1 x (removeAll x xs @ [x]) = removeAll x xs"
  by (simp add: remove1_append)

lemma mounted_init: "mounted (fst (init base h)) (snd (init base h))"
  by (simp add: mounted_def init_def Let_def split_beta addEventListeners_def
      addEventListener_other animate_effect animate_host appendChild_def
      remove1_removeAll_snoc)

lemma fold_animate_keeps:
  "container (fst (fold (\<lambda>handle (t, k). animate t k) xs (this, h))) = container this
   \<and> renderer (fst (fold (\<lambda>handle (t, k). animate t k) xs (this, h))) = renderer this
   \<and> prevPosition (fst (fold (\<lambda>handle (t, k). animate t k) xs (this, h))) = prevPosition this
   \<and> listeners (snd (fold (\<lambda>handle (t, k). animate t k) xs (this, h))) = listeners h
   \<and> childNodes (snd (fold (\<lambda>handle (t, k). animate t k) xs (this, h))) = childNodes h"
proof (induction xs arbitrary: this h)
  case Nil
  show ?case by simp
next
  case (Cons x xs)
  show ?case
    using Cons.IH [of "fst (animate this h)" "snd (animate this h)"]
    by (simp add: split_beta animate_effect animate_host)
qed

lemma dispatch_keeps:
  "container (fst (dispatch ev (this, h))) = container this"
  "domElement (renderer (fst (dispatch ev (this, h)))) = domElement (renderer this)"
  "listeners (snd (dispatch ev (this, h))) = listeners h"
  "childNodes (snd (dispatch ev (this, h))) = childNodes h"
  by (cases ev; simp add: Let_def handler_effect onWindowResize_effect onWindowResize_host
      fold_animate_keeps)+

lemma dispatch_keeps_prev:
  "\<not> is_move ev \<Longrightarrow> prevPosition (fst (dispatch ev (this, h))) = prevPosition this"
  by (cases ev; simp add: Let_def handler_effect onWindowResize_effect fold_animate_keeps)

lemma listening_dispatch:
  "listening (fst w) (snd w) \<Longrightarrow> listening (fst (dispatch ev w)) (snd (dispatch ev w))"
  by (cases w) (simp add: listening_def dispatch_keeps)

lemma mounted_dispatch:
  "mounted (fst w) (snd w) \<Longrightarrow> mounted (fst (dispatch ev w)) (snd (dispatch ev w))"
  by (cases w) (simp add: mounted_def dispatch_keeps)

lemma scheduled_dispatch:
  assumes "scheduled (fst w) (snd w)"
  shows "scheduled (fst (dispatch ev w)) (snd (dispatch ev w))"
proof (cases w)
  case (Pair this h)
  with assms obtain i where i: "animationFrame this = Some i" "frames h = [i]"
    by (auto simp: scheduled_def split: option.splits)
  show ?thesis
    unfolding Pair
    by (cases ev)
       (simp_all add: i scheduled_def Let_def handler_effect onWindowResize_effect
          onWindowResize_host animate_effect animate_host)
qed

lemma listening_run:
  "listening (fst w) (snd w) \<Longrightarrow> listening (fst (run evs w)) (snd (run evs w))"
  unfolding run_def by (induction evs arbitrary: w) (simp_all add: listening_dispatch)

lemma mounted_run:
  "mounted (fst w) (snd w) \<Longrightarrow> mounted (fst (run evs w)) (snd (run evs w))"
  unfolding run_def by (induction evs arbitrary: w) (simp_all add: mounted_dispatch)

lemma scheduled_run:
  "scheduled (fst w) (snd w) \<Longrightarrow> scheduled (fst (run evs w)) (snd (run evs w))"
  unfolding run_def by (induction evs arbitrary: w) (simp_all add: scheduled_dispatch)

lemma prev_run:
  "\<forall>ev \<in> set evs. \<not> is_move ev \<Longrightarrow> prevPosition (fst (run evs w)) = prevPosition (fst w)"
  unfolding run_def
proof (induction evs arbitrary: w)
  case Nil
  show ?case by simp
next
  case (Cons ev evs)
  have "prevPosition (fst (dispatch ev w)) = prevPosition (fst w)"
    using Cons.prems dispatch_keeps_prev [of ev "fst w" "snd w"] by simp
  with Cons show ?case by simp
qed

lemma detached_dispatch:
  assumes "detached this h" and "frames h = []"
  shows "detached (fst (dispatch ev (this, h))) (snd (dispatch ev (this, h)))
       \<and> frames (snd (dispatch ev (this, h))) = []
       \<and> calls (snd (dispatch ev (this, h))) = calls h
       \<and> fst (dispatch ev (this, h)) = this"
  using assms by (cases ev) (simp_all add: detached_def Let_def)

lemma detached_run:
  assumes "detached this h" and "frames h = []"
  shows "calls (snd (run evs (this, h))) = calls h \<and> fst (run evs (this, h)) = this"
  using assms unfolding run_def
proof (induction evs arbitrary: h)
  case Nil
  show ?case by simp
next
  case (Cons ev evs)
  note step = detached_dispatch [OF Cons.prems, of ev]
  from step have e: "fst (dispatch ev (this, h)) = this" by blast
  from step have d: "detached this (snd (dispatch ev (this, h)))" unfolding e by blast
  from step have f: "frames (snd (dispatch ev (this, h))) = []" by blast
  from step have c: "calls (snd (dispatch ev (this, h))) = calls h" by blast
  from e have t: "dispatch ev (this, h) = (this, snd (dispatch ev (this, h)))"
    by (simp add: prod_eq_iff)
  show ?case
    using Cons.IH [OF d f] c t by simp
qed

section \<open>The claims on the effect\<close>

lemma createTextTexture_calls:
  "fst (createTextTexture this (h\<lparr>calls := c\<rparr>)) = fst (createTextTexture this h)"
  by (simp add: createTextTexture_def createElement_def Let_def)

lemma onWindowResize_sets:
  "u_texture (fst (onWindowResize this h)) = fst (createTextTexture this h)"
  "cam_left (camera (fst (onWindowResize this h))) = - 1"
  "cam_right (camera (fst (onWindowResize this h))) = 1"
  "cam_top (camera (fst (onWindowResize this h)))
     = 1 / (real (innerWidth h) / real (innerHeight h))"
  "cam_bottom (camera (fst (onWindowResize this h)))
     = - 1 / (real (innerWidth h) / real (innerHeight h))"
  "projection (camera (fst (onWindowResize this h)))
     = (- 1, 1, 1 / (real (innerWidth h) / real (innerHeight h)),
        - 1 / (real (innerWidth h) / real (innerHeight h)))"
  "renderer_size (renderer (fst (onWindowResize this h))) = (innerWidth h, innerHeight h)"
  by (simp_all add: onWindowResize_def Let_def split_beta createTextTexture_calls)

text \<open>
  Claim C7. A resize of the window to \<open>vw\<close> by \<open>vh\<close>, delivered to an effect that was
  constructed and has received any events since, makes exactly these calls, in order: one
  update of the projection, one resize of the renderer, one construction of a texture from
  a canvas of \<open>2 * vw\<close> by \<open>2 * vh\<close>. Afterwards the bounds of the camera and its
  projection are those of the new aspect ratio, the renderer has the size of the window,
  and the texture of the effect is the one \<^verbatim>\<open>createTextTexture\<close> builds for the resized
  window, \<open>2 * vw\<close> wide and \<open>2 * vh\<close> high. Every canvas that \<^verbatim>\<open>createTextTexture\<close>
  returns is twice as wide and twice as high as the window.
\<close>

theorem resize_regenerates_once:
  "calls (snd (dispatch (Resize vw vh) (run evs (PixelatedTextEffect opts h))))
     = calls (snd (run evs (PixelatedTextEffect opts h)))
         @ [UpdateProjectionMatrix, SetSize vw vh, CanvasTexture (2 * vw) (2 * vh)]
   \<and> cam_left (camera (fst (dispatch (Resize vw vh) (run evs (PixelatedTextEffect opts h)))))
       = - 1
   \<and> cam_right (camera (fst (dispatch (Resize vw vh) (run evs (PixelatedTextEffect opts h)))))
       = 1
   \<and> cam_top (camera (fst (dispatch (Resize vw vh) (run evs (PixelatedTextEffect opts h)))))
       = 1 / (real vw / real vh)
   \<and> cam_bottom (camera (fst (dispatch (Resize vw vh) (run evs (PixelatedTextEffect opts h)))))
       = - 1 / (real vw / real vh)
   \<and> projection (camera (fst (dispatch (Resize vw vh) (run evs (PixelatedTextEffect opts h)))))
       = (- 1, 1, 1 / (real vw / real vh), - 1 / (real vw / real vh))
   \<and> renderer_size (renderer (fst (dispatch (Resize vw vh)
                                        (run evs (PixelatedTextEffect opts h)))))
       = (vw, vh)
   \<and> u_texture (fst (dispatch (Resize vw vh) (run evs (PixelatedTextEffect opts h))))
       = fst (createTextTexture (fst (run evs (PixelatedTextEffect opts h)))
                ((snd (run evs (PixelatedTextEffect opts h)))
                   \<lparr>innerWidth := vw, innerHeight := vh\<rparr>))
   \<and> canvas_width (u_texture (fst (dispatch (Resize vw vh) (run evs (PixelatedTextEffect opts h)))))
       = 2 * vw
   \<and> canvas_height (u_texture (fst (dispatch (Resize vw vh) (run evs (PixelatedTextEffect opts h)))))
       = 2 * vh
   \<and> canvas_width (fst (createTextTexture this k)) = 2 * innerWidth k
   \<and> canvas_height (fst (createTextTexture this k)) = 2 * innerHeight k"
proof -
  obtain t g where w: "run evs (PixelatedTextEffect opts h) = (t, g)"
    by (cases "run evs (PixelatedTextEffect opts h)")
  have "listening (fst (run evs (PixelatedTextEffect opts h)))
          (snd (run evs (PixelatedTextEffect opts h)))"
    by (rule listening_run) (simp add: PixelatedTextEffect_def listening_init)
  then have r: "(Window, ''resize'', OnWindowResize) \<in> set (listeners g)"
    by (simp add: w listening_def)
  show ?thesis
    by (simp add: w r Let_def onWindowResize_host onWindowResize_texture
        onWindowResize_sets createTextTexture_size)
qed

lemma resize_800_600:
  "canvas_width (u_texture (fst (dispatch (Resize 800 600) (init title_base page)))) = 1600
   \<and> canvas_height (u_texture (fst (dispatch (Resize 800 600) (init title_base page)))) = 1200"
proof -
  obtain t g where w: "init title_base page = (t, g)"
    by (cases "init title_base page")
  have "listening (fst (init title_base page)) (snd (init title_base page))"
    by (rule listening_init)
  then have r: "(Window, ''resize'', OnWindowResize) \<in> set (listeners g)"
    by (simp add: w listening_def)
  show ?thesis
    by (simp add: w r Let_def onWindowResize_texture)
qed

text \<open>
  Claim C2. On an effect that was constructed and has received any events, a pointer
  move records the target of that moment as the previous position; when events other
  than moves follow and the pointer then leaves, the target is that recorded previous
  position and the smoothing factor is 0.01.
\<close>

theorem leave_restores_previous:
  assumes "\<forall>ev \<in> set evs2. \<not> is_move ev"
  shows "prevPosition (fst (dispatch (MouseMove e) (run evs1 (PixelatedTextEffect opts h))))
           = targetMousePosition (fst (run evs1 (PixelatedTextEffect opts h)))
       \<and> targetMousePosition (fst (dispatch MouseLeave (run evs2
             (dispatch (MouseMove e) (run evs1 (PixelatedTextEffect opts h))))))
           = prevPosition (fst (dispatch (MouseMove e) (run evs1 (PixelatedTextEffect opts h))))
       \<and> easeFactor (fst (dispatch MouseLeave (run evs2
             (dispatch (MouseMove e) (run evs1 (PixelatedTextEffect opts h))))))
           = 0.01"
proof -
  let ?w0 = "run evs1 (PixelatedTextEffect opts h)"
  let ?w1 = "dispatch (MouseMove e) ?w0"
  let ?w2 = "run evs2 ?w1"
  have l0: "listening (fst ?w0) (snd ?w0)"
    by (rule listening_run) (simp add: PixelatedTextEffect_def listening_init)
  then have l1: "listening (fst ?w1) (snd ?w1)" by (rule listening_dispatch)
  then have l2: "listening (fst ?w2) (snd ?w2)" by (rule listening_run)
  obtain t0 g0 where w0: "?w0 = (t0, g0)" by (cases ?w0)
  obtain t2 g2 where w2: "?w2 = (t2, g2)" by (cases ?w2)
  have a: "prevPosition (fst ?w1) = targetMousePosition (fst ?w0)"
    using l0 by (simp add: w0 listening_def handleMouseMove_def)
  have p: "prevPosition (fst ?w2) = prevPosition (fst ?w1)"
    using assms by (rule prev_run)
  have b: "targetMousePosition (fst (dispatch MouseLeave ?w2)) = prevPosition (fst ?w2)
         \<and> easeFactor (fst (dispatch MouseLeave ?w2)) = 0.01"
    using l2 by (simp add: w2 listening_def handleMouseLeave_def)
  from a p b show ?thesis by simp
qed

theorem leave_restores_previous_witness:
  "\<not> is_move Frame
   \<and> targetMousePosition (fst (dispatch MouseLeave (run [Frame]
         (dispatch (MouseMove (pointer_at 150 250))
            (run [MouseMove (pointer_at 120 230)] (PixelatedTextEffect title_options page))))))
       = \<lparr>pos_x = 1 / 5, pos_y = 3 / 10\<rparr>
   \<and> targetMousePosition (fst (dispatch MouseLeave (run []
         (dispatch (MouseMove (pointer_at 150 250))
            (run [MouseMove (pointer_at 120 230)] (PixelatedTextEffect title_options page))))))
       = \<lparr>pos_x = 1 / 5, pos_y = 3 / 10\<rparr>
   \<and> easeFactor (fst (dispatch MouseLeave (run []
         (dispatch (MouseMove (pointer_at 150 250))
            (run [MouseMove (pointer_at 120 230)] (PixelatedTextEffect title_options page))))))
       = 0.01"
proof -
  let ?c = "PixelatedTextEffect title_options page"
  obtain t g where c: "?c = (t, g)" by (cases ?c)
  have "listening (fst ?c) (snd ?c)"
    by (simp add: PixelatedTextEffect_def listening_init)
  then have m: "(Element (container t), ''mousemove'', HandleMouseMove) \<in> set (listeners g)"
    by (simp add: c listening_def)
  have first: "targetMousePosition (fst (run [MouseMove (pointer_at 120 230)] ?c))
                 = \<lparr>pos_x = 1 / 5, pos_y = 3 / 10\<rparr>"
    by (simp add: run_def c m handleMouseMove_def pointer_at_def unit_box_def)
  have h1: "\<forall>ev \<in> set [Frame]. \<not> is_move ev" by simp
  have h2: "\<forall>ev \<in> set []. \<not> is_move ev" by simp
  show ?thesis
    using leave_restores_previous [OF h1, of "pointer_at 150 250"
        "[MouseMove (pointer_at 120 230)]" title_options page]
      leave_restores_previous [OF h2, of "pointer_at 150 250"
        "[MouseMove (pointer_at 120 230)]" title_options page]
      first
    by simp
qed

lemma destroy_active:
  assumes l: "listening this k" and m: "mounted this k" and s: "scheduled this k"
  shows "\<exists>this' k'. destroy this k = Inr (this', k')
           \<and> frames k' = [] \<and> detached this' k'
           \<and> container this' = container this
           \<and> domElement (renderer this') = domElement (renderer this)
           \<and> domElement (renderer this') \<notin> set (childNodes k' (container this'))
           \<and> disposed (renderer this')
           \<and> calls k' = calls k @ [Dispose]"
proof -
  from s obtain i where i: "animationFrame this = Some i" "frames k = [i]"
    by (auto simp: scheduled_def split: option.splits)
  from m have m1: "domElement (renderer this) \<in> set (childNodes k (container this))"
    and m2: "domElement (renderer this)
               \<notin> set (remove1 (domElement (renderer this)) (childNodes k (container this)))"
    by (simp_all add: mounted_def)
  show ?thesis
    using m2
    by (simp add: destroy_def Let_def removeChild_def removeEventListener_def
        cancelAnimationFrame_def i m1 detached_def)
qed

text \<open>
  Claim C8. On a page where no frame callback is waiting, construct an effect and let any
  events reach it: the handlers are registered, one callback is waiting and the canvas of
  the renderer is in the container. \<^verbatim>\<open>destroy\<close> then returns normally; afterwards no
  callback is waiting, none of the four listeners (mousemove, mouseenter, mouseleave,
  resize) is registered, the canvas is no longer a child of the container, the renderer
  has been disposed of, and whatever events follow, no further draw happens.
\<close>

theorem destroy_releases:
  assumes "frames h = []"
  shows "listening (fst (run evs (PixelatedTextEffect opts h)))
           (snd (run evs (PixelatedTextEffect opts h)))
       \<and> scheduled (fst (run evs (PixelatedTextEffect opts h)))
           (snd (run evs (PixelatedTextEffect opts h)))
       \<and> mounted (fst (run evs (PixelatedTextEffect opts h)))
           (snd (run evs (PixelatedTextEffect opts h)))
       \<and> (\<exists>this' h'.
            destroy (fst (run evs (PixelatedTextEffect opts h)))
                    (snd (run evs (PixelatedTextEffect opts h))) = Inr (this', h')
            \<and> frames h' = []
            \<and> detached this' h'
            \<and> container this' = opt_container opts
            \<and> domElement (renderer this') \<notin> set (childNodes h' (container this'))
            \<and> disposed (renderer this')
            \<and> calls h' = calls (snd (run evs (PixelatedTextEffect opts h))) @ [Dispose]
            \<and> (\<forall>later. draws (snd (run later (this', h')))
                        = draws (snd (run evs (PixelatedTextEffect opts h)))))"
proof -
  let ?w = "run evs (PixelatedTextEffect opts h)"
  have l: "listening (fst ?w) (snd ?w)"
    by (rule listening_run) (simp add: PixelatedTextEffect_def listening_init)
  have m: "mounted (fst ?w) (snd ?w)"
    by (rule mounted_run) (simp add: PixelatedTextEffect_def mounted_init)
  have s: "scheduled (fst ?w) (snd ?w)"
    by (rule scheduled_run) (simp add: PixelatedTextEffect_def scheduled_init assms)
  have c: "container (fst ?w) = opt_container opts"
    unfolding run_def
  proof (induction evs rule: rev_induct)
    case Nil
    show ?case by (simp add: PixelatedTextEffect_def init_effect)
  next
    case (snoc ev evs)
    then show ?case
      using dispatch_keeps(1) [of ev "fst (fold dispatch evs (PixelatedTextEffect opts h))"
          "snd (fold dispatch evs (PixelatedTextEffect opts h))"]
      by simp
  qed
  from destroy_active [OF l m s] obtain this' h' where
    d: "destroy (fst ?w) (snd ?w) = Inr (this', h')"
    and f: "frames h' = []" and dt: "detached this' h'"
    and ct: "container this' = container (fst ?w)"
    and ch: "domElement (renderer this') \<notin> set (childNodes h' (container this'))"
    and dp: "disposed (renderer this')"
    and cl: "calls h' = calls (snd ?w) @ [Dispose]"
    by blast
  have "draws (snd (run later (this', h'))) = draws (snd ?w)" for later
    using detached_run [OF dt f, of later] by (simp add: draws_def cl)
  with l m s d f dt ct c ch dp cl show ?thesis by simp
qed

theorem destroy_releases_witness:
  "frames page = []
   \<and> (\<exists>this' h'.
        destroy (fst (run [Frame, Resize 1024 768] (PixelatedTextEffect title_options page)))
                (snd (run [Frame, Resize 1024 768] (PixelatedTextEffect title_options page)))
          = Inr (this', h')
        \<and> frames h' = []
        \<and> detached this' h'
        \<and> container this' = 0
        \<and> domElement (renderer this') \<notin> set (childNodes h' 0)
        \<and> disposed (renderer this')
        \<and> draws (snd (run [Frame, MouseMove (pointer_at 150 250), Frame] (this', h')))
            = draws (snd (run [Frame, Resize 1024 768] (PixelatedTextEffect title_options page))))"
proof -
  have f: "frames page = []" by (simp add: page_def)
  have c: "opt_container title_options = 0" by (simp add: title_options_def)
  from destroy_releases [OF f, of "[Frame, Resize 1024 768]" title_options]
  obtain this' h' where
    "destroy (fst (run [Frame, Resize 1024 768] (PixelatedTextEffect title_options page)))
             (snd (run [Frame, Resize 1024 768] (PixelatedTextEffect title_options page)))
       = Inr (this', h')"
    and "frames h' = []" and "detached this' h'"
    and "container this' = opt_container title_options"
    and "domElement (renderer this') \<notin> set (childNodes h' (container this'))"
    and "disposed (renderer this')"
    and "\<forall>later. draws (snd (run later (this', h')))
           = draws (snd (run [Frame, Resize 1024 768] (PixelatedTextEffect title_options page)))"
    by blast
  with f c show ?thesis by simp
qed

section \<open>The helper for a selector\<close>

lemma createTextTexture_nextNode:
  "nextNode (snd (createTextTexture this h)) = Suc (nextNode h)"
  by (simp add: createTextTexture_def createElement_def Let_def)

lemma animate_text: "effect_text (fst (animate this h)) = effect_text this"
  by (simp add: animate_def requestAnimationFrame_def Let_def)

lemma init_page:
  "domElement (renderer (fst (init base h))) = Suc (nextNode h)"
  "childNodes (snd (init base h)) p =
     (if p = container base
      then removeAll (Suc (nextNode h)) (childNodes h p) @ [Suc (nextNode h)]
      else removeAll (Suc (nextNode h)) (childNodes h p))"
  "effect_text (fst (init base h)) = effect_text base"
  by (simp_all add: init_def Let_def split_beta addEventListeners_def addEventListener_other
      animate_effect animate_host animate_text appendChild_def createElement_def
      createTextTexture_nextNode createTextTexture_host)

lemma setStyle_page:
  "nextNode (setStyle n k v h) = nextNode h"
  "childNodes (setStyle n k v h) = childNodes h"
  "calls (setStyle n k v h) = calls h"
  by (simp_all add: setStyle_def)

lemma addClass_page:
  "nextNode (addClass n c h) = nextNode h"
  "childNodes (addClass n c h) = childNodes h"
  by (simp_all add: addClass_def)

text \<open>The no-break space and the ideographic space are stripped like the ASCII space.\<close>

lemma trim_unicode_spaces: "trim [0x00A0, 72, 0x0020, 73, 0x3000, 0x0020] = [72, 0x0020, 73]"
  by (simp add: trim_def is_space_def)

text \<open>
  No element matches: one warning is logged, nothing is returned, and nothing else on the
  page changes.
\<close>

lemma applyPixelatedTextTo_not_found:
  assumes "querySelector h selector = Inr None"
  shows "applyPixelatedTextTo selector ov h =
           Inr (None,
                h\<lparr>calls := calls h @ [Warn (''Element not found for selector: '' @ selector)]\<rparr>)"
  using assms by (simp add: applyPixelatedTextTo_def)

text \<open>The selector does not parse: the error of \<^verbatim>\<open>querySelector\<close> leaves the function.\<close>

lemma applyPixelatedTextTo_throws:
  assumes "querySelector h selector = Inl e"
  shows "applyPixelatedTextTo selector ov h = Inl (e, h)"
  using assms by (simp add: applyPixelatedTextTo_def)

text \<open>
  An element matches: a new node, the overlay, becomes a child of the element and an effect
  is returned; its container is the overlay when the options name no container, and the
  container of the options otherwise.
\<close>

lemma applyPixelatedTextTo_found:
  assumes "querySelector h selector = Inr (Some el)"
  shows "\<exists>this h'. applyPixelatedTextTo selector ov h = Inr (Some this, h')
           \<and> container this = (case ov_container ov of None \<Rightarrow> nextNode h | Some c \<Rightarrow> c)
           \<and> effect_text this
               = (case ov_text ov of None \<Rightarrow> trim (textContent h el) | Some t \<Rightarrow> t)
           \<and> nextNode h \<in> set (childNodes h' el)
           \<and> domElement (renderer this) \<in> set (childNodes h' (container this))
           \<and> listening this h'"
proof -
  have "nextNode h \<noteq> Suc (Suc (nextNode h))" by simp
  then show ?thesis
    using assms
    by (simp add: applyPixelatedTextTo_def Let_def split_beta PixelatedTextEffect_def
        init_effect init_page listening_init setStyle_page addClass_page
        appendChild_def createElement_def
        split: option.splits)
qed

text \<open>
  Claim C9, at the input that breaks it. On the sample page, \<^verbatim>\<open>#title\<close> matches node 0 and
  the options carry \<^verbatim>\<open>container: node 1\<close>. The overlay, node 2, is created and inserted into
  node 0, but the effect that is returned is bound to node 1, not to the overlay, and its
  canvas is a child of node 1.
\<close>

theorem applyPixelatedTextTo_container_overridden:
  "\<exists>this h'. applyPixelatedTextTo ''#title'' other_container page = Inr (Some this, h')
      \<and> nextNode page = 2
      \<and> 2 \<in> set (childNodes h' 0)
      \<and> container this = 1
      \<and> container this \<noteq> 2
      \<and> domElement (renderer this) \<in> set (childNodes h' 1)"
proof -
  have q: "querySelector page ''#title'' = Inr (Some 0)" by (simp add: page_def)
  have n: "nextNode page = 2" by (simp add: page_def)
  have o: "ov_container other_container = Some 1" by (simp add: other_container_def)
  from applyPixelatedTextTo_found [OF q, of other_container]
  obtain this h' where
    "applyPixelatedTextTo ''#title'' other_container page = Inr (Some this, h')"
    and "container this = (case ov_container other_container of None \<Rightarrow> nextNode page | Some c \<Rightarrow> c)"
    and "nextNode page \<in> set (childNodes h' 0)"
    and "domElement (renderer this) \<in> set (childNodes h' (container this))"
    by blast
  with n o show ?thesis by simp
qed

end
